theory Spec2Isabelle
  imports Main "HOL-Library.AList"
begin

section \<open>The chant downloader (valaam.py)\<close>

text \<open>
  The script fetches pages of a web site, extracts options with regular expressions, lets
  the user pick from numbered menus, downloads audio files and writes tags into them.
  Every function of the script is embedded below as a HOL function of the same name;
  of \<open>main\<close>, which only chains them, the single-track branch is embedded, as
  \<open>download_one\<close>.

  Conventions of the embedding:
  \<^item> a Python \<open>str\<close> is a \<open>string\<close>, holding the text in UTF-8 (a character outside ASCII
    is several \<open>char\<close>s); \<open>bytes\<close> are a \<open>string\<close> too;
  \<^item> a Python \<open>dict\<close> is an association list in insertion order, updated with
    \<open>AList.update\<close> (an existing key keeps its place and takes the new value, a new key
    goes to the end) and read with \<open>map_of\<close>;
  \<^item> effects are explicit: every function takes the \<open>world\<close> (what the process has
    read, printed, requested and written so far) and gives it back inside its result;
  \<^item> an exception is the result \<open>Raise e w\<close>, \<open>w\<close> being the world when it was raised;
  \<^item> what the outside answers (the keyboard, the web server, the operating system) and
    what the libraries \<open>re\<close>, \<open>json\<close> and \<open>mutagen\<close> compute is taken from a record
    \<open>env\<close>, a parameter of every function.
\<close>

subsection \<open>Strings and integers of the language\<close>

definition lower_char :: "char \<Rightarrow> char" where
  "lower_char c =
     (case map_of (zip ''ABCDEFGHIJKLMNOPQRSTUVWXYZ'' ''abcdefghijklmnopqrstuvwxyz'') c of
        Some l \<Rightarrow> l
      | None \<Rightarrow> c)"

text \<open>\<open>str.lower\<close> on ASCII letters. The script only compares the result with \<open>"q"\<close>,
  and \<open>Q\<close> is the only other character whose lower case is \<open>q\<close>.\<close>

definition lower :: "string \<Rightarrow> string" where
  "lower s = map lower_char s"

definition startswith :: "string \<Rightarrow> string \<Rightarrow> bool" where
  "startswith s p = (take (length p) s = p)"

definition digit_char :: "nat \<Rightarrow> char" where
  "digit_char d = ''0123456789'' ! d"

fun str_nat :: "nat \<Rightarrow> string" where
  "str_nat n = (if n < 10 then [digit_char n] else str_nat (n div 10) @ [digit_char (n mod 10)])"

text \<open>\<open>str\<close> of an integer.\<close>

definition str_int :: "int \<Rightarrow> string" where
  "str_int i = (if i < 0 then CHR ''-'' # str_nat (nat (- i)) else str_nat (nat i))"

definition is_digit :: "char \<Rightarrow> bool" where
  "is_digit c = (48 \<le> (of_char c :: nat) \<and> (of_char c :: nat) \<le> 57)"

definition digit_val :: "char \<Rightarrow> nat" where
  "digit_val c = (of_char c :: nat) - 48"

definition is_space :: "char \<Rightarrow> bool" where
  "is_space c = ((of_char c :: nat) = 32 \<or> (9 \<le> (of_char c :: nat) \<and> (of_char c :: nat) \<le> 13))"

definition strip :: "string \<Rightarrow> string" where
  "strip s = rev (dropWhile is_space (rev (dropWhile is_space s)))"

text \<open>The digits after the first one: more digits, each of which a single underscore may
  precede.\<close>

fun int_digits :: "nat \<Rightarrow> string \<Rightarrow> nat option" where
  "int_digits acc [] = Some acc"
| "int_digits acc (c # cs) =
     (if is_digit c then int_digits (10 * acc + digit_val c) cs
      else if c = CHR ''_'' then
        (case cs of
           [] \<Rightarrow> None
         | d # ds \<Rightarrow> if is_digit d then int_digits (10 * acc + digit_val d) ds else None)
      else None)"

definition int_unsigned :: "string \<Rightarrow> nat option" where
  "int_unsigned s =
     (case s of
        [] \<Rightarrow> None
      | c # cs \<Rightarrow> if is_digit c then int_digits (digit_val c) cs else None)"

text \<open>
  \<open>int(s)\<close> in base 10 on ASCII text: surrounding white space is dropped, one sign is
  allowed, then digits. \<open>None\<close> is \<open>ValueError\<close>. (The digits of other scripts, which
  \<open>int\<close> also reads, and the interpreter's limit on the number of digits are not part of
  this model.)
\<close>

definition py_int :: "string \<Rightarrow> int option" where
  "py_int s =
     (case strip s of
        [] \<Rightarrow> None
      | c # cs \<Rightarrow>
          if c = CHR ''-'' then map_option (\<lambda>n. - int n) (int_unsigned cs)
          else if c = CHR ''+'' then map_option int (int_unsigned cs)
          else map_option int (int_unsigned (c # cs)))"

subsection \<open>Exceptions, the world and the environment\<close>

datatype exn =
    RuntimeError string
  | KeyError string
  | TypeError string
  | MissingArguments string "string list"
  | ValueError string
  | StopIteration
  | AttributeError string
  | UnicodeDecodeError
  | OSError string
  | MutagenError string
  | EOFError
  | SystemExit

text \<open>\<open>MissingArguments f ps\<close> is the \<open>TypeError\<close> of a call of \<open>f\<close> that leaves the
  parameters \<open>ps\<close> without a value.\<close>

record http_request =
  req_url :: string
  req_timeout :: "nat option"
  req_stream :: bool

text \<open>
  An HTTP response: the status line, the body as \<open>iter_content\<close> hands it out for a given
  chunk size, and the error, if any, that reading the body ends with.
\<close>

record http_response =
  status_code :: nat
  reason :: string
  chunks :: "nat \<Rightarrow> string list"
  body_error :: "string option"

datatype http_answer = NoResponse string | Answer http_response

type_synonym tags = "(string \<times> string) list"

record audio_file =
  content :: string
  saved_tags :: "tags option"

record world =
  stdin_pos :: nat
  stdout :: "string list"
  http_log :: "http_request list"
  files :: "(string \<times> audio_file) list"
  write_log :: "(string \<times> string) list"
  dirs :: "string list"
  commands :: "string list"

datatype json =
    JNull
  | JBool bool
  | JInt int
  | JFloat string
  | JStr string
  | JArr "json list"
  | JObj "(string \<times> json) list"

text \<open>
  \<^item> \<open>stdin n\<close> is line \<open>n\<close> of the standard input, \<open>None\<close> once the input has ended;
  \<^item> \<open>server n r\<close> is what the network answers to request \<open>r\<close>, the \<open>n\<close>-th of the run;
  \<^item> \<open>open_error p\<close> and \<open>makedirs_error p\<close> are the operating system's refusal, if any;
  \<^item> \<open>re_findall\<close> is \<open>re.findall\<close> for a pattern of two groups, \<open>re_search\<close> is group 1 of
    \<open>re.search\<close> with \<open>re.DOTALL\<close>, \<open>json_loads\<close> is \<open>json.loads\<close> (\<open>Inl\<close> the text of
    a \<open>JSONDecodeError\<close>);
  \<^item> \<open>id3_header\<close> is the tag container that \<open>mutagen\<close> reads in a file's bytes, and
    \<open>mutagen_knows\<close> says whether \<open>mutagen.File\<close> recognises the format.
\<close>

record env =
  os_name :: string
  stdin :: "nat \<Rightarrow> string option"
  server :: "nat \<Rightarrow> http_request \<Rightarrow> http_answer"
  open_error :: "string \<Rightarrow> string option"
  makedirs_error :: "string \<Rightarrow> string option"
  re_findall :: "string \<Rightarrow> string \<Rightarrow> (string \<times> string) list"
  re_search :: "string \<Rightarrow> string \<Rightarrow> string option"
  json_loads :: "string \<Rightarrow> string + json"
  id3_header :: "string \<Rightarrow> tags option"
  mutagen_knows :: "string \<Rightarrow> bool"

datatype 'a result = Return 'a world | Raise exn world

definition print :: "string \<Rightarrow> world \<Rightarrow> world" where
  "print line w = w\<lparr>stdout := stdout w @ [line]\<rparr>"

text \<open>\<open>input(prompt)\<close>: the prompt is written, then one line is read.\<close>

definition input :: "env \<Rightarrow> string \<Rightarrow> world \<Rightarrow> string result" where
  "input E prompt w =
     (let w1 = print prompt w in
      case stdin E (stdin_pos w1) of
        None \<Rightarrow> Raise EOFError w1
      | Some line \<Rightarrow> Return line (w1\<lparr>stdin_pos := Suc (stdin_pos w1)\<rparr>))"

subsection \<open>Module constants\<close>

definition chants_url :: string where
  "chants_url = ''https://valaam.ru/chants/''"

text \<open>The scheme and the network location of \<open>chants_url\<close>.\<close>

definition base_url :: string where
  "base_url = ''https://'' @ ''valaam.ru''"

subsection \<open>\<open>clear_term\<close>\<close>

definition clear_term :: "env \<Rightarrow> world \<Rightarrow> world" where
  "clear_term E w =
     w\<lparr>commands := commands w @ [if os_name E = ''nt'' then ''cls'' else ''clear'']\<rparr>"

subsection \<open>\<open>list_and_select\<close>\<close>

definition menu_line :: "nat \<times> string \<Rightarrow> string" where
  "menu_line = (\<lambda>(index, key). str_nat index @ ''. '' @ key)"

definition show_menu :: "string list \<Rightarrow> world \<Rightarrow> world" where
  "show_menu keys w = fold print (map menu_line (List.enumerate 0 keys)) w"

definition select_prompt :: string where
  "select_prompt = ''Please enter your selection number (or 'q'to quit): ''"

definition range_message :: "string list \<Rightarrow> string" where
  "range_message keys =
     ''Please select a number between 0 and '' @ str_int (int (length keys) - 1) @ ''.''"

definition invalid_message :: string where
  "invalid_message = ''Invalid input. Please enter a valid number or 'q' to quit.''"

text \<open>
  The \<open>while True\<close> loop. It has no bound: the result is \<open>None\<close> when the loop never ends.
\<close>

partial_function (option) list_and_select_loop ::
  "env \<Rightarrow> (string \<times> 'v) list \<Rightarrow> string list \<Rightarrow> world \<Rightarrow> ('v \<times> string) result option"
where
  "list_and_select_loop E options keys w =
     (case input E select_prompt (show_menu keys w) of
        Raise e w1 \<Rightarrow> Some (Raise e w1)
      | Return str_option w1 \<Rightarrow>
          if lower str_option = ''q'' then Some (Raise SystemExit w1)
          else
            (case py_int str_option of
               Some int_option \<Rightarrow>
                 if 0 \<le> int_option \<and> int_option < int (length keys) then
                   (case map_of options (keys ! nat int_option) of
                      Some v \<Rightarrow> Some (Return (v, keys ! nat int_option) w1)
                    | None \<Rightarrow> Some (Raise (KeyError (keys ! nat int_option)) w1))
                 else list_and_select_loop E options keys (print (range_message keys) w1)
             | None \<Rightarrow> list_and_select_loop E options keys (print invalid_message w1)))"

definition list_and_select ::
  "env \<Rightarrow> (string \<times> 'v) list \<Rightarrow> world \<Rightarrow> ('v \<times> string) result option"
where
  "list_and_select E options w = list_and_select_loop E options (map fst options) w"

subsection \<open>The \<open>requests\<close> library\<close>

text \<open>
  \<open>requests.get\<close>: the request is issued (and recorded in \<open>http_log\<close>). Without
  \<open>stream=True\<close> the whole body is read before the call returns, so an error on the way
  is raised by the call itself. \<open>Inl\<close> is the text of a \<open>RequestException\<close>.
\<close>

definition requests_get :: "env \<Rightarrow> http_request \<Rightarrow> world \<Rightarrow> (string + http_response) \<times> world" where
  "requests_get E req w =
     (let w1 = w\<lparr>http_log := http_log w @ [req]\<rparr> in
      case server E (length (http_log w)) req of
        NoResponse e \<Rightarrow> (Inl e, w1)
      | Answer resp \<Rightarrow>
          if req_stream req then (Inr resp, w1)
          else (case body_error resp of Some e \<Rightarrow> (Inl e, w1) | None \<Rightarrow> (Inr resp, w1)))"

text \<open>\<open>Response.raise_for_status\<close>: an \<open>HTTPError\<close> for the statuses 400 to 599, and for
  no other status.\<close>

definition raise_for_status :: "string \<Rightarrow> http_response \<Rightarrow> string option" where
  "raise_for_status url resp =
     (if 400 \<le> status_code resp \<and> status_code resp < 500 then
        Some (str_nat (status_code resp) @ '' Client Error: '' @ reason resp @ '' for url: '' @ url)
      else if 500 \<le> status_code resp \<and> status_code resp < 600 then
        Some (str_nat (status_code resp) @ '' Server Error: '' @ reason resp @ '' for url: '' @ url)
      else None)"

text \<open>\<open>Response.content\<close>: the body, joined from chunks of 10240 bytes.\<close>

definition response_content :: "http_response \<Rightarrow> string" where
  "response_content resp = concat (chunks resp 10240)"

subsection \<open>Decoding UTF-8\<close>

definition utf8_cont :: "nat \<Rightarrow> bool" where
  "utf8_cont b = (128 \<le> b \<and> b \<le> 191)"

definition utf8_second3 :: "nat \<Rightarrow> nat \<Rightarrow> bool" where
  "utf8_second3 b b1 =
     (if b = 224 then 160 \<le> b1 \<and> b1 \<le> 191
      else if b = 237 then 128 \<le> b1 \<and> b1 \<le> 159
      else utf8_cont b1)"

definition utf8_second4 :: "nat \<Rightarrow> nat \<Rightarrow> bool" where
  "utf8_second4 b b1 =
     (if b = 240 then 144 \<le> b1 \<and> b1 \<le> 191
      else if b = 244 then 128 \<le> b1 \<and> b1 \<le> 143
      else utf8_cont b1)"

text \<open>Well-formed UTF-8: no stray or missing continuation byte, no overlong form, no
  surrogate, nothing above U+10FFFF.\<close>

fun utf8_valid :: "nat list \<Rightarrow> bool" where
  "utf8_valid [] = True"
| "utf8_valid (b # bs) =
     (if b < 128 then utf8_valid bs
      else if 194 \<le> b \<and> b \<le> 223 then
        (case bs of
           b1 # r \<Rightarrow> utf8_cont b1 \<and> utf8_valid r
         | _ \<Rightarrow> False)
      else if 224 \<le> b \<and> b \<le> 239 then
        (case bs of
           b1 # b2 # r \<Rightarrow> utf8_second3 b b1 \<and> utf8_cont b2 \<and> utf8_valid r
         | _ \<Rightarrow> False)
      else if 240 \<le> b \<and> b \<le> 244 then
        (case bs of
           b1 # b2 # b3 # r \<Rightarrow> utf8_second4 b b1 \<and> utf8_cont b2 \<and> utf8_cont b3 \<and> utf8_valid r
         | _ \<Rightarrow> False)
      else False)"

text \<open>\<open>bytes.decode("utf-8")\<close>: the text (here the same bytes, see the conventions), or
  \<open>None\<close> for \<open>UnicodeDecodeError\<close>.\<close>

definition decode_utf8 :: "string \<Rightarrow> string option" where
  "decode_utf8 b = (if utf8_valid (map of_char b) then Some b else None)"

subsection \<open>\<open>get_page\<close>\<close>

definition get_page :: "env \<Rightarrow> string \<Rightarrow> world \<Rightarrow> string result" where
  "get_page E url w =
     (case requests_get E \<lparr>req_url = url, req_timeout = Some 10, req_stream = False\<rparr> w of
        (Inl e, w1) \<Rightarrow> Raise (RuntimeError (''Failed to retrieve the page: '' @ e)) w1
      | (Inr response, w1) \<Rightarrow>
          (case raise_for_status url response of
             Some e \<Rightarrow> Raise (RuntimeError (''Failed to retrieve the page: '' @ e)) w1
           | None \<Rightarrow>
               (case decode_utf8 (response_content response) of
                  None \<Rightarrow> Raise UnicodeDecodeError w1
                | Some html_content \<Rightarrow> Return html_content w1)))"

subsection \<open>\<open>get_options\<close>\<close>

text \<open>The comprehension \<open>{title: href for href, title in matches}\<close>.\<close>

definition options_dict :: "(string \<times> string) list \<Rightarrow> (string \<times> string) list" where
  "options_dict matches = fold (\<lambda>(href, title) d. AList.update title href d) matches []"

definition get_options :: "env \<Rightarrow> string \<Rightarrow> string \<Rightarrow> world \<Rightarrow> (string \<times> string) list result" where
  "get_options E url pattern w =
     (case get_page E url w of
        Raise e w1 \<Rightarrow> Raise e w1
      | Return html_content w1 \<Rightarrow>
          (let matches = re_findall E pattern html_content in
           if matches \<noteq> [] then Return (options_dict matches) w1
           else Raise (RuntimeError ''No results.'') w1))"

subsection \<open>\<open>get_playlist\<close>\<close>

text \<open>\<open>d[k]\<close> on a dictionary.\<close>

definition getitem :: "(string \<times> 'v) list \<Rightarrow> string \<Rightarrow> exn + 'v" where
  "getitem d k = (case map_of d k of None \<Rightarrow> Inl (KeyError k) | Some v \<Rightarrow> Inr v)"

text \<open>\<open>data[k]\<close> on what \<open>json.loads\<close> returned, \<open>k\<close> a string.\<close>

fun json_getitem :: "json \<Rightarrow> string \<Rightarrow> exn + json" where
  "json_getitem (JObj d) k = getitem d k"
| "json_getitem (JArr xs) k = Inl (TypeError ''list indices must be integers or slices, not str'')"
| "json_getitem (JStr s) k = Inl (TypeError ''string indices must be integers'')"
| "json_getitem v k = Inl (TypeError ''object is not subscriptable'')"

definition get_playlist :: "env \<Rightarrow> string \<Rightarrow> string \<Rightarrow> world \<Rightarrow> json result" where
  "get_playlist E url pattern w =
     (case get_page E url w of
        Raise e w1 \<Rightarrow> Raise e w1
      | Return html_content w1 \<Rightarrow>
          (case re_search E pattern html_content of
             Some block_of_text \<Rightarrow>
               (case json_loads E block_of_text of
                  Inr data \<Rightarrow>
                    (case json_getitem data ''songs'' of
                       Inl e \<Rightarrow> Raise e w1
                     | Inr songs \<Rightarrow> Return songs w1)
                | Inl e \<Rightarrow> Return (JArr []) (print (''Failed to parse JSON: '' @ e) w1))
           | None \<Rightarrow> Return (JArr []) (print ''Block not found'' w1)))"

subsection \<open>\<open>download_mp3\<close>\<close>

text \<open>\<open>open(file_path, 'wb')\<close> empties the file or creates it; \<open>file.write\<close> appends.\<close>

definition open_wb :: "env \<Rightarrow> string \<Rightarrow> world \<Rightarrow> string + world" where
  "open_wb E file_path w =
     (case open_error E file_path of
        Some e \<Rightarrow> Inl e
      | None \<Rightarrow>
          Inr (w\<lparr>files := AList.update file_path \<lparr>content = [], saved_tags = None\<rparr> (files w)\<rparr>))"

definition file_write :: "string \<Rightarrow> string \<Rightarrow> world \<Rightarrow> world" where
  "file_write file_path chunk w =
     w\<lparr>files := AList.map_entry file_path (\<lambda>f. f\<lparr>content := content f @ chunk\<rparr>) (files w),
       write_log := write_log w @ [(file_path, chunk)]\<rparr>"

definition write_chunks :: "string \<Rightarrow> string list \<Rightarrow> world \<Rightarrow> world" where
  "write_chunks file_path cs w =
     fold (\<lambda>chunk w'. if chunk \<noteq> [] then file_write file_path chunk w' else w') cs w"

definition download_error :: "string \<Rightarrow> string \<Rightarrow> string" where
  "download_error file_path e = ''Error downloading '' @ file_path @ '': '' @ e"

definition download_mp3 :: "env \<Rightarrow> string \<Rightarrow> string \<Rightarrow> world \<Rightarrow> bool result" where
  "download_mp3 E url0 file_path w =
     (let url = (if \<not> startswith url0 ''http'' then base_url @ url0 else url0) in
      case requests_get E \<lparr>req_url = url, req_timeout = None, req_stream = True\<rparr> w of
        (Inl e, w1) \<Rightarrow> Return False (print (download_error file_path e) w1)
      | (Inr response, w1) \<Rightarrow>
          (case raise_for_status url response of
             Some e \<Rightarrow> Return False (print (download_error file_path e) w1)
           | None \<Rightarrow>
               (case open_wb E file_path w1 of
                  Inl e \<Rightarrow> Raise (OSError e) w1
                | Inr w2 \<Rightarrow>
                    (let w3 = write_chunks file_path (chunks response 1024) w2 in
                     case body_error response of
                       Some e \<Rightarrow> Return False (print (download_error file_path e) w3)
                     | None \<Rightarrow> Return True w3))))"

subsection \<open>\<open>add_metadata\<close>\<close>

text \<open>A track is a dict whose values are strings, as the playlist of the site has them; a
  key may be missing.\<close>

type_synonym song = "(string \<times> string) list"

text \<open>The tags a file carries: those saved last, or those in the bytes written to it.\<close>

definition file_tags :: "env \<Rightarrow> audio_file \<Rightarrow> tags option" where
  "file_tags E f = (case saved_tags f of Some t \<Rightarrow> Some t | None \<Rightarrow> id3_header E (content f))"

text \<open>
  \<open>EasyID3(file_path)\<close> gives the tags of the file; when it has none
  (\<open>ID3NoHeaderError\<close>) \<open>mutagen.File\<close> opens the file and \<open>add_tags\<close> gives it an empty
  container, which fails on the \<open>None\<close> that \<open>mutagen.File\<close> returns for a format it does
  not recognise.
\<close>

definition open_tags :: "env \<Rightarrow> string \<Rightarrow> world \<Rightarrow> exn + (audio_file \<times> tags)" where
  "open_tags E file_path w =
     (case map_of (files w) file_path of
        None \<Rightarrow> Inl (MutagenError file_path)
      | Some f \<Rightarrow>
          (case file_tags E f of
             Some t \<Rightarrow> Inr (f, t)
           | None \<Rightarrow>
               if mutagen_knows E (content f) then Inr (f, [])
               else Inl (AttributeError ''NoneType object has no attribute add_tags'')))"

definition add_metadata :: "env \<Rightarrow> string \<Rightarrow> string \<Rightarrow> song \<Rightarrow> nat \<Rightarrow> world \<Rightarrow> unit result" where
  "add_metadata E file_path album_data song_data track_number w =
     (case open_tags E file_path w of
        Inl e \<Rightarrow> Raise e w
      | Inr (f, audio) \<Rightarrow>
          (case getitem song_data ''name'' of
             Inl e \<Rightarrow> Raise e w
           | Inr name \<Rightarrow>
               (case getitem song_data ''artist'' of
                  Inl e \<Rightarrow> Raise e w
                | Inr artist \<Rightarrow>
                    (let audio1 = AList.update ''title'' name audio;
                         audio2 = AList.update ''album'' album_data audio1;
                         audio3 = AList.update ''artist'' artist audio2;
                         audio4 = AList.update ''tracknumber'' (str_nat track_number) audio3
                     in Return ()
                          (w\<lparr>files := AList.update file_path (f\<lparr>saved_tags := Some audio4\<rparr>) (files w)\<rparr>)))))"

subsection \<open>\<open>download_playlist\<close>\<close>

text \<open>\<open>os.path.join\<close> of two components (POSIX).\<close>

definition path_join :: "string \<Rightarrow> string \<Rightarrow> string" where
  "path_join a b =
     (if startswith b ''/'' then b
      else if a = [] \<or> last a = CHR ''/'' then a @ b
      else a @ ''/'' @ b)"

definition makedirs :: "env \<Rightarrow> string \<Rightarrow> world \<Rightarrow> unit result" where
  "makedirs E p w =
     (case makedirs_error E p of
        Some e \<Rightarrow> Raise (OSError e) w
      | None \<Rightarrow> Return () (w\<lparr>dirs := List.insert p (dirs w)\<rparr>))"

text \<open>The body of the \<open>for\<close> loop, for one pair of \<open>enumerate(songs, start=1)\<close>. (The progress
  bar of \<open>tqdm\<close> goes to the standard error and is left out.)\<close>

definition download_song :: "env \<Rightarrow> string \<Rightarrow> string \<Rightarrow> nat \<times> song \<Rightarrow> world \<Rightarrow> unit result" where
  "download_song E folder_path album = (\<lambda>(index, song) w.
     case getitem song ''name'' of
       Inl e \<Rightarrow> Raise e w
     | Inr song_name \<Rightarrow>
         (case getitem song ''url'' of
            Inl e \<Rightarrow> Raise e w
          | Inr song_url \<Rightarrow>
              (let file_path = path_join folder_path (song_name @ ''.mp3'') in
               case download_mp3 E song_url file_path w of
                 Raise e w1 \<Rightarrow> Raise e w1
               | Return ok w1 \<Rightarrow>
                   if ok then add_metadata E file_path album song index w1
                   else Return () w1)))"

text \<open>A \<open>for\<close> loop: the body runs on each element in turn, an exception ends the loop.\<close>

fun for_each :: "('a \<Rightarrow> world \<Rightarrow> unit result) \<Rightarrow> 'a list \<Rightarrow> world \<Rightarrow> unit result" where
  "for_each body [] w = Return () w"
| "for_each body (x # xs) w =
     (case body x w of
        Raise e w1 \<Rightarrow> Raise e w1
      | Return u w1 \<Rightarrow> for_each body xs w1)"

definition download_playlist :: "env \<Rightarrow> song list \<Rightarrow> string \<Rightarrow> world \<Rightarrow> unit result" where
  "download_playlist E songs album w =
     (let folder_path = path_join ''downloads'' album in
      case makedirs E folder_path w of
        Raise e w1 \<Rightarrow> Raise e w1
      | Return u w1 \<Rightarrow>
          for_each (download_song E folder_path album) (List.enumerate 1 songs) w1)"

subsection \<open>The single-track branch of \<open>main\<close>\<close>

text \<open>The comprehension \<open>{song['name']: song['url'] for song in playlist}\<close>.\<close>

fun song_urls_dict :: "song list \<Rightarrow> (string \<times> string) list \<Rightarrow> exn + (string \<times> string) list" where
  "song_urls_dict [] d = Inr d"
| "song_urls_dict (song # rest) d =
     (case getitem song ''name'' of
        Inl e \<Rightarrow> Inl e
      | Inr name \<Rightarrow>
          (case getitem song ''url'' of
             Inl e \<Rightarrow> Inl e
           | Inr url \<Rightarrow> song_urls_dict rest (AList.update name url d)))"

text \<open>\<open>next(song for song in playlist if song['name'] == song_name)\<close>.\<close>

fun next_song :: "song list \<Rightarrow> string \<Rightarrow> exn + song" where
  "next_song [] song_name = Inl StopIteration"
| "next_song (song # rest) song_name =
     (case getitem song ''name'' of
        Inl e \<Rightarrow> Inl e
      | Inr name \<Rightarrow> if name = song_name then Inr song else next_song rest song_name)"

text \<open>\<open>list.index\<close>.\<close>

fun list_index :: "'a list \<Rightarrow> 'a \<Rightarrow> exn + nat" where
  "list_index [] x = Inl (ValueError ''x not in list'')"
| "list_index (y # ys) x =
     (if y = x then Inr 0
      else (case list_index ys x of Inl e \<Rightarrow> Inl e | Inr i \<Rightarrow> Inr (Suc i)))"

text \<open>
  A call binds its arguments to the parameters before the body runs: the positional
  arguments fill the parameters from the left, a keyword argument fills the parameter of
  its name, and a parameter left without a value is a \<open>TypeError\<close>. (No call of the script
  has too many arguments or an unknown keyword.)
\<close>

datatype arg = AStr string | ASong song | ANum nat

fun bind_params :: "string list \<Rightarrow> arg list \<Rightarrow> (string \<times> arg) list \<Rightarrow> (string \<times> arg option) list" where
  "bind_params [] pos kw = []"
| "bind_params (p # ps) (a # pos) kw = (p, Some a) # bind_params ps pos kw"
| "bind_params (p # ps) [] kw = (p, map_of kw p) # bind_params ps [] kw"

definition add_metadata_params :: "string list" where
  "add_metadata_params = [''file_path'', ''album_data'', ''song_data'', ''track_number'']"

definition call_add_metadata :: "env \<Rightarrow> arg list \<Rightarrow> (string \<times> arg) list \<Rightarrow> world \<Rightarrow> unit result" where
  "call_add_metadata E pos kw w =
     (let bound = bind_params add_metadata_params pos kw;
          missing = map fst (filter (\<lambda>(p, v). v = None) bound)
      in if missing \<noteq> [] then Raise (MissingArguments ''add_metadata'' missing) w
         else
           (case map snd bound of
              [Some (AStr file_path), Some (AStr album_data), Some (ASong song_data), Some (ANum track_number)] \<Rightarrow>
                add_metadata E file_path album_data song_data track_number w
            | _ \<Rightarrow> Raise (TypeError ''add_metadata: arguments of types that this model does not cover'') w))"

text \<open>
  Lines 235 to 248 of \<open>main\<close>, the branch taken when the answer to the question about the
  entire playlist is not \<open>y\<close>. The call of \<open>add_metadata\<close> is the one written there:
  \<open>add_metadata(file_path, song_data, track_number=song_index)\<close>.
\<close>

definition download_one :: "env \<Rightarrow> song list \<Rightarrow> string \<Rightarrow> world \<Rightarrow> unit result option" where
  "download_one E playlist album w =
     (case song_urls_dict playlist [] of
        Inl e \<Rightarrow> Some (Raise e w)
      | Inr song_urls \<Rightarrow>
          (case list_and_select E song_urls w of
             None \<Rightarrow> None
           | Some (Raise e w1) \<Rightarrow> Some (Raise e w1)
           | Some (Return (selected_song, song_name) w1) \<Rightarrow>
               (let folder_path = path_join ''downloads'' album in
                case makedirs E folder_path w1 of
                  Raise e w2 \<Rightarrow> Some (Raise e w2)
                | Return u w2 \<Rightarrow>
                    (let file_path = path_join folder_path (song_name @ ''.mp3'') in
                     case download_mp3 E selected_song file_path w2 of
                       Raise e w3 \<Rightarrow> Some (Raise e w3)
                     | Return ok w3 \<Rightarrow>
                         if ok then
                           (case next_song playlist song_name of
                              Inl e \<Rightarrow> Some (Raise e w3)
                            | Inr song_data \<Rightarrow>
                                (case list_index playlist song_data of
                                   Inl e \<Rightarrow> Some (Raise e w3)
                                 | Inr i \<Rightarrow>
                                     (case call_add_metadata E [AStr file_path, ASong song_data]
                                             [(''track_number'', ANum (i + 1))] w3 of
                                        Raise e w4 \<Rightarrow> Some (Raise e w4)
                                      | Return u' w4 \<Rightarrow>
                                          Some (Return ()
                                            (print (''Downloaded and added metadata to '' @ file_path) w4)))))
                         else Some (Return ()
                                (print (''Downloaded and added metadata to '' @ file_path) w3))))))"

section \<open>Notions used in the statements\<close>

text \<open>The world a result carries.\<close>

fun world_of :: "'a result \<Rightarrow> world" where
  "world_of (Return x w) = w"
| "world_of (Raise e w) = w"

text \<open>The request that \<open>get_page\<close> issues, and the one that \<open>download_mp3\<close> issues.\<close>

definition page_request :: "string \<Rightarrow> http_request" where
  "page_request url = \<lparr>req_url = url, req_timeout = Some 10, req_stream = False\<rparr>"

definition download_request :: "string \<Rightarrow> http_request" where
  "download_request url =
     \<lparr>req_url = (if startswith url ''http'' then url else base_url @ url),
        req_timeout = None, req_stream = True\<rparr>"

text \<open>The statuses for which \<open>raise_for_status\<close> raises.\<close>

definition http_error_status :: "nat \<Rightarrow> bool" where
  "http_error_status st = (400 \<le> st \<and> st < 600)"

text \<open>The elements of a list without repetition, each at the place of its first
  occurrence.\<close>

definition first_occurrences :: "'a list \<Rightarrow> 'a list" where
  "first_occurrences xs = fold (\<lambda>x acc. if x \<in> set acc then acc else acc @ [x]) xs []"

text \<open>The file that the track of a playlist is written to, and the tags of a file.\<close>

definition song_path :: "string \<Rightarrow> song \<Rightarrow> string" where
  "song_path album song =
     path_join (path_join ''downloads'' album) (case getitem song ''name'' of Inr n \<Rightarrow> n @ ''.mp3'' | Inl e \<Rightarrow> [])"

definition tag_of :: "world \<Rightarrow> string \<Rightarrow> string \<Rightarrow> string option" where
  "tag_of w file_path k =
     (case map_of (files w) file_path of
        None \<Rightarrow> None
      | Some f \<Rightarrow> (case saved_tags f of None \<Rightarrow> None | Some t \<Rightarrow> map_of t k))"

text \<open>The world after one round of the menu: the menu and the prompt are printed, one line is
  read.\<close>

definition after_prompt :: "string list \<Rightarrow> world \<Rightarrow> world" where
  "after_prompt keys w =
     (print select_prompt (show_menu keys w))\<lparr>stdin_pos := Suc (stdin_pos w)\<rparr>"

section \<open>Concrete runs\<close>

definition w0 :: world where
  "w0 = \<lparr>stdin_pos = 0, stdout = [], http_log = [], files = [], write_log = [], dirs = [],
          commands = []\<rparr>"

definition w_fetched :: world where
  "w_fetched = w0\<lparr>http_log := [page_request ''u'']\<rparr>"


definition lines_of :: "string list \<Rightarrow> nat \<Rightarrow> string option" where
  "lines_of xs n = (if n < length xs then Some (xs ! n) else None)"

definition page_response :: "nat \<Rightarrow> string \<Rightarrow> http_response" where
  "page_response st body =
     \<lparr>status_code = st, reason = ''OK'', chunks = (\<lambda>n. [body]), body_error = None\<rparr>"

definition failing_response :: "string \<Rightarrow> http_response" where
  "failing_response body =
     \<lparr>status_code = 200, reason = ''OK'', chunks = (\<lambda>n. [body]), body_error = Some ''Connection broken''\<rparr>"

definition audio_response :: "string list \<Rightarrow> string option \<Rightarrow> http_response" where
  "audio_response cs e = \<lparr>status_code = 200, reason = ''OK'', chunks = (\<lambda>n. cs), body_error = e\<rparr>"

definition quiet_env :: env where
  "quiet_env =
     \<lparr>os_name = ''posix'', stdin = lines_of [],
        server = (\<lambda>n r. Answer (page_response 200 ''page'')),
        open_error = (\<lambda>p. None), makedirs_error = (\<lambda>p. None),
        re_findall = (\<lambda>p t. []), re_search = (\<lambda>p t. None),
        json_loads = (\<lambda>s. Inl ''Expecting value''),
        id3_header = (\<lambda>b. None), mutagen_knows = (\<lambda>b. True)\<rparr>"

definition match_env :: "(string \<times> string) list \<Rightarrow> env" where
  "match_env ms = quiet_env\<lparr>re_findall := (\<lambda>p t. ms)\<rparr>"

definition server_env :: "http_answer \<Rightarrow> env" where
  "server_env a = quiet_env\<lparr>server := (\<lambda>n r. a)\<rparr>"

definition playlist_env :: "string option \<Rightarrow> string + json \<Rightarrow> env" where
  "playlist_env m j = quiet_env\<lparr>re_search := (\<lambda>p t. m), json_loads := (\<lambda>s. j)\<rparr>"

definition typing_env :: "string list \<Rightarrow> env" where
  "typing_env ls = quiet_env\<lparr>stdin := lines_of ls\<rparr>"

text \<open>A keyboard that answers every prompt with the same line.\<close>

definition repeating_env :: "string \<Rightarrow> env" where
  "repeating_env l = quiet_env\<lparr>stdin := (\<lambda>n. Some l)\<rparr>"

definition menu3 :: "(string \<times> string) list" where
  "menu3 = [(''a'', ''/a''), (''b'', ''/b''), (''c'', ''/c'')]"

definition song_one :: song where
  "song_one = [(''name'', ''One''), (''url'', ''/s1.mp3''), (''artist'', ''X'')]"

definition song_two :: song where
  "song_two = [(''name'', ''Two''), (''url'', ''/s2.mp3''), (''artist'', ''Y'')]"

definition flaky_env :: env where
  "flaky_env = quiet_env\<lparr>server := (\<lambda>n r.
      if req_url r = ''https://valaam.ru/s2.mp3'' then Answer (audio_response [''data''] None)
      else NoResponse ''refused'')\<rparr>"

definition pick_env :: env where
  "pick_env = quiet_env\<lparr>stdin := lines_of [''0''], server := (\<lambda>n r. Answer (audio_response [''data''] None))\<rparr>"

definition w_first_failed :: world where
  "w_first_failed =
     \<lparr>stdin_pos = 0, stdout = [''Error downloading downloads/Album/One.mp3: refused''],
        http_log = [\<lparr>req_url = ''https://valaam.ru/s1.mp3'', req_timeout = None, req_stream = True\<rparr>],
        files = [], write_log = [], dirs = [''downloads/Album''], commands = []\<rparr>"

definition w_second_done :: world where
  "w_second_done =
     w_first_failed\<lparr>
        http_log := [\<lparr>req_url = ''https://valaam.ru/s1.mp3'', req_timeout = None, req_stream = True\<rparr>,
                     \<lparr>req_url = ''https://valaam.ru/s2.mp3'', req_timeout = None, req_stream = True\<rparr>],
        files := [(''downloads/Album/Two.mp3'', \<lparr>content = ''data'', saved_tags = None\<rparr>)],
        write_log := [(''downloads/Album/Two.mp3'', ''data'')]\<rparr>"

definition w_second_tagged :: world where
  "w_second_tagged =
     w_second_done\<lparr>
        files := [(''downloads/Album/Two.mp3'',
                   \<lparr>content = ''data'',
                      saved_tags = Some [(''title'', ''Two''), (''album'', ''Album''), (''artist'', ''Y''),
                                         (''tracknumber'', ''2'')]\<rparr>)]\<rparr>"

definition w_one_downloaded :: world where
  "w_one_downloaded =
     \<lparr>stdin_pos = 1, stdout = [''0. One'', select_prompt],
        http_log = [\<lparr>req_url = ''https://valaam.ru/s1.mp3'', req_timeout = None, req_stream = True\<rparr>],
        files = [(''downloads/Album/One.mp3'', \<lparr>content = ''data'', saved_tags = None\<rparr>)],
        write_log = [(''downloads/Album/One.mp3'', ''data'')],
        dirs = [''downloads/Album''], commands = []\<rparr>"

text \<open>The world when an empty menu was shown, the line \<open>0\<close> was read and refused, and the next
  prompt found the input ended.\<close>

definition w_input_ended :: world where
  "w_input_ended =
     \<lparr>stdin_pos = 1, stdout = [select_prompt, range_message [], select_prompt],
        http_log = [], files = [], write_log = [], dirs = [], commands = []\<rparr>"

section \<open>Properties\<close>

subsection \<open>Fetching a page\<close>

lemma raise_for_status_None:
  "raise_for_status url resp = None \<longleftrightarrow> \<not> http_error_status (status_code resp)"
  by (auto simp: raise_for_status_def http_error_status_def)

lemma get_page_world: "world_of (get_page E url w) = w\<lparr>http_log := http_log w @ [page_request url]\<rparr>"
  by (simp add: get_page_def requests_get_def page_request_def Let_def
      split: http_answer.splits option.splits)

lemmas run_page = requests_get_def raise_for_status_def response_content_def decode_utf8_def
  get_page_def quiet_env_def page_response_def w0_def w_fetched_def page_request_def

lemma get_page_match_env: "get_page (match_env ms) ''u'' w0 = Return ''page'' w_fetched"
  by (simp add: run_page match_env_def)

lemma get_page_playlist_env: "get_page (playlist_env m j) ''u'' w0 = Return ''page'' w_fetched"
  by (simp add: run_page playlist_env_def)

text \<open>
  Claim C8, as the code has it. \<open>get_page\<close> issues one GET with a timeout of 10 and does
  nothing else to the world. It raises a \<open>RuntimeError\<close> whose text ends with the text of
  the cause when the request fails, when reading the body fails, and when the status is
  between 400 and 599. For every other status, 1xx and 3xx included, it returns the body
  decoded as UTF-8, unchanged, when the body is well-formed UTF-8, and raises
  \<open>UnicodeDecodeError\<close>, not wrapped in a \<open>RuntimeError\<close>, when it is not.
\<close>

theorem get_page_results:
  "world_of (get_page E url w) = w\<lparr>http_log := http_log w @ [page_request url]\<rparr>
   \<and> (server E (length (http_log w)) (page_request url) = NoResponse e
        \<longrightarrow> get_page E url w = Raise (RuntimeError (''Failed to retrieve the page: '' @ e))
              (w\<lparr>http_log := http_log w @ [page_request url]\<rparr>))
   \<and> (server E (length (http_log w)) (page_request url) = Answer resp \<and> body_error resp = Some e
        \<longrightarrow> get_page E url w = Raise (RuntimeError (''Failed to retrieve the page: '' @ e))
              (w\<lparr>http_log := http_log w @ [page_request url]\<rparr>))
   \<and> (server E (length (http_log w)) (page_request url) = Answer resp \<and> body_error resp = None
        \<and> http_error_status (status_code resp)
        \<longrightarrow> (\<exists>cause. get_page E url w = Raise (RuntimeError (''Failed to retrieve the page: '' @ cause))
              (w\<lparr>http_log := http_log w @ [page_request url]\<rparr>)))
   \<and> (server E (length (http_log w)) (page_request url) = Answer resp \<and> body_error resp = None
        \<and> \<not> http_error_status (status_code resp)
        \<longrightarrow> get_page E url w =
            (if utf8_valid (map of_char (response_content resp))
             then Return (response_content resp) (w\<lparr>http_log := http_log w @ [page_request url]\<rparr>)
             else Raise UnicodeDecodeError (w\<lparr>http_log := http_log w @ [page_request url]\<rparr>)))"
  unfolding get_page_world
  by (auto simp add: get_page_def requests_get_def page_request_def Let_def decode_utf8_def
      raise_for_status_def http_error_status_def)

theorem get_page_results_witness:
  "get_page (server_env (NoResponse ''timed out'')) ''u'' w0
       = Raise (RuntimeError ''Failed to retrieve the page: timed out'') w_fetched
   \<and> get_page (server_env (Answer (failing_response ''pa''))) ''u'' w0
       = Raise (RuntimeError ''Failed to retrieve the page: Connection broken'') w_fetched
   \<and> (\<exists>cause. get_page (server_env (Answer (page_response 404 ''gone''))) ''u'' w0
       = Raise (RuntimeError (''Failed to retrieve the page: '' @ cause)) w_fetched)
   \<and> get_page (server_env (Answer (page_response 200 ''page''))) ''u'' w0 = Return ''page'' w_fetched
   \<and> get_page (server_env (Answer (page_response 200 [CHR 0xC3]))) ''u'' w0 = Raise UnicodeDecodeError w_fetched"
  using get_page_results [of "server_env (NoResponse ''timed out'')" "''u''" w0 "''timed out''" "failing_response ''pa''"]
    get_page_results [of "server_env (Answer (failing_response ''pa''))" "''u''" w0 "''Connection broken''" "failing_response ''pa''"]
    get_page_results [of "server_env (Answer (page_response 404 ''gone''))" "''u''" w0 "''e''" "page_response 404 ''gone''"]
    get_page_results [of "server_env (Answer (page_response 200 ''page''))" "''u''" w0 "''e''" "page_response 200 ''page''"]
    get_page_results [of "server_env (Answer (page_response 200 [CHR 0xC3]))" "''u''" w0 "''e''" "page_response 200 [CHR 0xC3]"]
  by (simp add: server_env_def quiet_env_def page_response_def failing_response_def w0_def w_fetched_def
      http_error_status_def response_content_def)

text \<open>
  Claim C8 as the specification states it fails twice: a response of status 304, which is
  not a 2xx status, is returned and not raised; and a response of status 200 whose body
  is not UTF-8 ends in an error that is not the fetch error.
\<close>

theorem get_page_counterexample:
  "get_page (server_env (Answer (page_response 304 []))) ''u'' w0 = Return [] w_fetched
   \<and> get_page (server_env (Answer (page_response 200 [CHR 0xFF]))) ''u'' w0 = Raise UnicodeDecodeError w_fetched"
  by (simp add: run_page server_env_def)

subsection \<open>Options of a page\<close>

lemma fold_update_nonempty:
  "ms \<noteq> [] \<or> d \<noteq> [] \<Longrightarrow> fold (\<lambda>(href, title) d. AList.update title href d) ms d \<noteq> []"
  by (induction ms arbitrary: d) (auto simp: split_def)

lemma options_dict_nonempty: "ms \<noteq> [] \<Longrightarrow> options_dict ms \<noteq> []"
  by (simp add: options_dict_def fold_update_nonempty)

lemma fold_update_keys:
  "map fst (fold (\<lambda>(href, title) d. AList.update title href d) ms d) =
   fold (\<lambda>x acc. if x \<in> set acc then acc else acc @ [x]) (map snd ms) (map fst d)"
  by (induction ms arbitrary: d) (auto simp: split_def update_keys)

lemma options_dict_keys: "map fst (options_dict ms) = first_occurrences (map snd ms)"
  by (simp add: options_dict_def first_occurrences_def fold_update_keys)

lemma fold_first_distinct:
  "distinct acc \<Longrightarrow> distinct (fold (\<lambda>x acc. if x \<in> set acc then acc else acc @ [x]) xs acc)"
  by (induction xs arbitrary: acc) auto

lemma fold_first_set:
  "set (fold (\<lambda>x acc. if x \<in> set acc then acc else acc @ [x]) xs acc) = set acc \<union> set xs"
  by (induction xs arbitrary: acc) auto

lemma first_occurrences_distinct: "distinct (first_occurrences xs)"
  by (simp add: first_occurrences_def fold_first_distinct)

lemma first_occurrences_set: "set (first_occurrences xs) = set xs"
  by (simp add: first_occurrences_def fold_first_set)

lemma first_occurrences_length: "length (first_occurrences xs) = card (set xs)"
  using first_occurrences_distinct [of xs] first_occurrences_set [of xs]
  by (metis distinct_card)

lemma fold_update_map_of:
  "map_of (fold (\<lambda>(href, title) d. AList.update title href d) ms d) =
   map_of (rev (map (\<lambda>(href, title). (title, href)) ms) @ d)"
  by (induction ms arbitrary: d)
     (auto simp: split_def update_conv' fun_eq_iff map_add_def split: option.splits)

lemma options_dict_map_of:
  "map_of (options_dict ms) = map_of (rev (map (\<lambda>(href, title). (title, href)) ms))"
  by (simp add: options_dict_def fold_update_map_of)

lemma update_fresh: "k \<notin> fst ` set d \<Longrightarrow> AList.update k v d = d @ [(k, v)]"
  by (induction d) auto

lemma fold_update_distinct:
  "distinct (map snd ms) \<Longrightarrow> snd ` set ms \<inter> fst ` set d = {} \<Longrightarrow>
   fold (\<lambda>(href, title) d. AList.update title href d) ms d = d @ map (\<lambda>(href, title). (title, href)) ms"
proof (induction ms arbitrary: d)
  case Nil
  then show ?case by simp
next
  case (Cons m ms)
  obtain h t where m: "m = (h, t)" by (cases m)
  from Cons.prems have fresh: "t \<notin> fst ` set d" by (auto simp: m)
  have "snd ` set ms \<inter> fst ` set (d @ [(t, h)]) = {}"
    using Cons.prems by (auto simp: m)
  with Cons.IH [of "d @ [(t, h)]"] Cons.prems show ?case
    by (simp add: m update_fresh [OF fresh])
qed

lemma options_dict_distinct:
  "distinct (map snd ms) \<Longrightarrow> options_dict ms = map (\<lambda>(href, title). (title, href)) ms"
  using fold_update_distinct [of ms "[]"] by (simp add: options_dict_def)

text \<open>
  Claim C2, as the code has it. For a page with at least one match, \<open>get_options\<close> returns
  a mapping whose keys are the captured titles without repetition, in the order of their
  first occurrence, so its size is the number of different titles; every title is mapped
  to the link of its last match. When the titles are pairwise different, the size is the
  number of matches and the keys are exactly the titles, in document order, each with the
  link of its match.
\<close>

theorem get_options_keys:
  assumes "get_page E url w = Return html w'"
    and "re_findall E pattern html = matches"
    and "matches \<noteq> []"
  shows "\<exists>d. get_options E url pattern w = Return d w'
           \<and> map fst d = first_occurrences (map snd matches)
           \<and> length d = card (set (map snd matches))
           \<and> map_of d = map_of (rev (map (\<lambda>(href, title). (title, href)) matches))
           \<and> (distinct (map snd matches) \<longrightarrow>
                length d = length matches \<and> map fst d = map snd matches \<and> map snd d = map fst matches)"
proof -
  have r: "get_options E url pattern w = Return (options_dict matches) w'"
    using assms by (simp add: get_options_def)
  have len: "length (options_dict matches) = card (set (map snd matches))"
    using options_dict_keys [of matches] first_occurrences_length [of "map snd matches"]
    by (metis length_map)
  have dist: "distinct (map snd matches) \<Longrightarrow>
      length (options_dict matches) = length matches \<and> map fst (options_dict matches) = map snd matches
      \<and> map snd (options_dict matches) = map fst matches"
    by (simp add: options_dict_distinct split_def comp_def)
  show ?thesis
    using r len dist options_dict_keys [of matches] options_dict_map_of [of matches] by blast
qed

theorem get_options_keys_witness:
  "\<exists>d. get_options (match_env [(''/a'', ''A''), (''/b'', ''B'')]) ''u'' ''p'' w0 = Return d w_fetched
       \<and> map fst d = [''A'', ''B''] \<and> length d = 2 \<and> map snd d = [''/a'', ''/b'']"
  using get_options_keys [OF get_page_match_env, of "[(''/a'', ''A''), (''/b'', ''B'')]" "''p''"
      "[(''/a'', ''A''), (''/b'', ''B'')]"]
  by (auto simp add: match_env_def first_occurrences_def)

text \<open>
  Claim C2 as the specification states it fails when two anchors carry the same title:
  there are two matches and the mapping has one entry.
\<close>

theorem get_options_size_counterexample:
  "get_options (match_env [(''/a'', ''T''), (''/b'', ''T'')]) ''u'' ''p'' w0 = Return [(''T'', ''/b'')] w_fetched
   \<and> length (re_findall (match_env [(''/a'', ''T''), (''/b'', ''T'')]) ''p'' ''page'') = 2"
  unfolding get_options_def get_page_match_env by (simp add: match_env_def options_dict_def)

text \<open>
  Claim C4. On a page where the pattern matches nowhere, \<open>get_options\<close> raises the error
  \<open>No results.\<close>; and on no page at all does it return an empty mapping.
\<close>

theorem get_options_no_match:
  assumes "get_page E url w = Return html w'"
    and "re_findall E pattern html = []"
  shows "get_options E url pattern w = Raise (RuntimeError ''No results.'') w'
         \<and> (\<forall>E2 url2 pattern2 w2 w3. get_options E2 url2 pattern2 w2 \<noteq> Return [] w3)"
  using assms
  by (auto simp add: get_options_def Let_def options_dict_nonempty split: result.splits)

theorem get_options_no_match_witness:
  "get_options (match_env []) ''u'' ''p'' w0 = Raise (RuntimeError ''No results.'') w_fetched"
  using get_options_no_match [OF get_page_match_env [of "[]"], of "''p''"]
  by (simp add: match_env_def quiet_env_def)

subsection \<open>The playlist of a page\<close>

text \<open>
  Claim C3. On a page that was fetched: when the pattern finds a payload that parses to an
  object with an array under \<open>songs\<close>, \<open>get_playlist\<close> returns that array; when the pattern
  finds nothing, it prints \<open>Block not found\<close> and returns an empty list; when the payload
  does not parse, it prints the parse error and returns an empty list.
\<close>

theorem get_playlist_results:
  assumes "get_page E url w = Return html w'"
  shows "(re_search E pattern html = Some block \<and> json_loads E block = Inr (JObj d)
            \<and> map_of d ''songs'' = Some (JArr songs)
          \<longrightarrow> get_playlist E url pattern w = Return (JArr songs) w')
       \<and> (re_search E pattern html = None
          \<longrightarrow> get_playlist E url pattern w = Return (JArr []) (print ''Block not found'' w'))
       \<and> (re_search E pattern html = Some block \<and> json_loads E block = Inl err
          \<longrightarrow> get_playlist E url pattern w = Return (JArr []) (print (''Failed to parse JSON: '' @ err) w'))"
  using assms by (simp add: get_playlist_def getitem_def)

theorem get_playlist_results_witness:
  "get_playlist (playlist_env (Some ''{}'') (Inr (JObj [(''songs'', JArr [JStr ''s''])]))) ''u'' ''p'' w0
     = Return (JArr [JStr ''s'']) w_fetched
   \<and> get_playlist (playlist_env None (Inl ''e'')) ''u'' ''p'' w0 = Return (JArr []) (print ''Block not found'' w_fetched)
   \<and> get_playlist (playlist_env (Some ''{'') (Inl ''e'')) ''u'' ''p'' w0
     = Return (JArr []) (print ''Failed to parse JSON: e'' w_fetched)"
  using get_playlist_results [OF get_page_playlist_env, of "Some ''{}''"
      "Inr (JObj [(''songs'', JArr [JStr ''s''])])" "''p''" "''{}''" "[(''songs'', JArr [JStr ''s''])]" "[JStr ''s'']" "''e''"]
    get_playlist_results [OF get_page_playlist_env, of None "Inl ''e''" "''p''" "''{}''" "[]" "[]" "''e''"]
    get_playlist_results [OF get_page_playlist_env, of "Some ''{''" "Inl ''e''" "''p''" "''{''" "[]" "[]" "''e''"]
  by (simp add: playlist_env_def)

text \<open>
  Claim C9. When the payload parses to an object that has no key \<open>songs\<close>, \<open>get_playlist\<close>
  raises \<open>KeyError\<close>; nothing has been printed.
\<close>

theorem get_playlist_no_songs_key:
  assumes "get_page E url w = Return html w'"
    and "re_search E pattern html = Some block"
    and "json_loads E block = Inr (JObj d)"
    and "map_of d ''songs'' = None"
  shows "get_playlist E url pattern w = Raise (KeyError ''songs'') w' \<and> stdout w' = stdout w"
  using assms get_page_world [of E url w]
  by (simp add: get_playlist_def getitem_def)

theorem get_playlist_no_songs_key_witness:
  "get_playlist (playlist_env (Some ''{}'') (Inr (JObj []))) ''u'' ''p'' w0 = Raise (KeyError ''songs'') w_fetched"
  using get_playlist_no_songs_key [OF get_page_playlist_env, of "Some ''{}''" "Inr (JObj [])" "''p''" "''{}''" "[]"]
  by (simp add: playlist_env_def)

subsection \<open>Downloading a file\<close>





lemma download_mp3_unfold:
  "download_mp3 E url file_path w =
     (case server E (length (http_log w)) (download_request url) of
        NoResponse e \<Rightarrow>
          Return False (print (download_error file_path e) (w\<lparr>http_log := http_log w @ [download_request url]\<rparr>))
      | Answer resp \<Rightarrow>
          if http_error_status (status_code resp) then
            Return False (print (download_error file_path (the (raise_for_status (req_url (download_request url)) resp)))
              (w\<lparr>http_log := http_log w @ [download_request url]\<rparr>))
          else
            (case open_error E file_path of
               Some e \<Rightarrow> Raise (OSError e) (w\<lparr>http_log := http_log w @ [download_request url]\<rparr>)
             | None \<Rightarrow>
                 (case body_error resp of
                    Some e \<Rightarrow> Return False (print (download_error file_path e)
                      (write_chunks file_path (chunks resp 1024)
                        (w\<lparr>http_log := http_log w @ [download_request url],
                           files := AList.update file_path \<lparr>content = [], saved_tags = None\<rparr> (files w)\<rparr>)))
                  | None \<Rightarrow> Return True
                      (write_chunks file_path (chunks resp 1024)
                        (w\<lparr>http_log := http_log w @ [download_request url],
                           files := AList.update file_path \<lparr>content = [], saved_tags = None\<rparr> (files w)\<rparr>)))))"
proof -
  define u where "u = (if \<not> startswith url ''http'' then base_url @ url else url)"
  have r: "download_request url = \<lparr>req_url = u, req_timeout = None, req_stream = True\<rparr>"
    by (simp add: download_request_def u_def)
  show ?thesis
  proof (cases "server E (length (http_log w)) \<lparr>req_url = u, req_timeout = None, req_stream = True\<rparr>")
    case (NoResponse e)
    then show ?thesis
      unfolding r by (simp add: download_mp3_def Let_def requests_get_def u_def [symmetric])
  next
    case (Answer resp)
    show ?thesis
    proof (cases "http_error_status (status_code resp)")
      case True
      then obtain c where "raise_for_status u resp = Some c"
        using raise_for_status_None [of u resp] by auto
      with True Answer show ?thesis
        unfolding r by (simp add: download_mp3_def Let_def requests_get_def u_def [symmetric])
    next
      case False
      then have "raise_for_status u resp = None"
        by (simp add: raise_for_status_None)
      with False Answer show ?thesis
        unfolding r
        by (simp add: download_mp3_def Let_def requests_get_def u_def [symmetric] open_wb_def
            split: option.splits)
    qed
  qed
qed




subsection \<open>Selecting from a menu\<close>

lemma fold_print_stdin_pos: "stdin_pos (fold print ls w) = stdin_pos w"
  by (induction ls arbitrary: w) (auto simp: print_def)

lemma show_menu_stdin_pos: "stdin_pos (show_menu keys w) = stdin_pos w"
  by (simp add: show_menu_def fold_print_stdin_pos)

lemma input_line:
  "stdin E (stdin_pos w) = Some l \<Longrightarrow>
   input E select_prompt (show_menu keys w) = Return l (after_prompt keys w)"
  by (simp add: input_def Let_def after_prompt_def show_menu_stdin_pos print_def)

lemma input_eof:
  "stdin E (stdin_pos w) = None \<Longrightarrow>
   input E select_prompt (show_menu keys w) = Raise EOFError (print select_prompt (show_menu keys w))"
  by (simp add: input_def Let_def show_menu_stdin_pos print_def)

lemma after_prompt_stdin_pos: "stdin_pos (after_prompt keys w) = Suc (stdin_pos w)"
  by (simp add: after_prompt_def)

lemma print_stdin_pos: "stdin_pos (print l w) = stdin_pos w"
  by (simp add: print_def)

lemma loop_step:
  assumes "stdin E (stdin_pos w) = Some l"
  shows "list_and_select_loop E options keys w =
     (if lower l = ''q'' then Some (Raise SystemExit (after_prompt keys w))
      else
        (case py_int l of
           Some i \<Rightarrow>
             if 0 \<le> i \<and> i < int (length keys) then
               (case map_of options (keys ! nat i) of
                  Some v \<Rightarrow> Some (Return (v, keys ! nat i) (after_prompt keys w))
                | None \<Rightarrow> Some (Raise (KeyError (keys ! nat i)) (after_prompt keys w)))
             else list_and_select_loop E options keys (print (range_message keys) (after_prompt keys w))
         | None \<Rightarrow> list_and_select_loop E options keys (print invalid_message (after_prompt keys w))))"
  by (subst list_and_select_loop.simps) (simp add: input_line [OF assms])

lemma loop_eof:
  assumes "stdin E (stdin_pos w) = None"
  shows "list_and_select_loop E options keys w = Some (Raise EOFError (print select_prompt (show_menu keys w)))"
  by (subst list_and_select_loop.simps) (simp add: input_eof [OF assms])

lemma map_of_nth_distinct:
  "distinct (map fst xs) \<Longrightarrow> i < length xs \<Longrightarrow> map_of xs (fst (xs ! i)) = Some (snd (xs ! i))"
  by (metis map_of_eq_Some_iff nth_mem prod.collapse)

lemmas run_int = py_int_def strip_def is_space_def int_unsigned_def is_digit_def digit_val_def
  lower_def lower_char_def

text \<open>
  Claim C6. For a mapping (its keys are distinct, as those of every dict are) and a line
  on the standard input, one round of \<open>list_and_select\<close> does this: a line whose lower case
  is \<open>q\<close> ends the whole process with \<open>SystemExit\<close>; a line that \<open>int\<close> reads as a number
  \<open>i\<close> with \<open>0 \<le> i < count\<close> returns the value and the label of the entry at index \<open>i\<close>
  and the loop stops; a number outside that range prints the message about the range and
  the loop prompts again; every other line prints the message about invalid input and
  the loop prompts again. \<open>after_prompt\<close> is the world once the menu and the prompt are
  printed and the line is read.
\<close>

theorem list_and_select_step:
  assumes "distinct (map fst options)" and "stdin E (stdin_pos w) = Some line"
  shows "(lower line = ''q'' \<longrightarrow>
            list_and_select E options w = Some (Raise SystemExit (after_prompt (map fst options) w)))
       \<and> (lower line \<noteq> ''q'' \<and> py_int line = Some i \<and> 0 \<le> i \<and> i < int (length options) \<longrightarrow>
            list_and_select E options w =
              Some (Return (snd (options ! nat i), fst (options ! nat i)) (after_prompt (map fst options) w)))
       \<and> (lower line \<noteq> ''q'' \<and> py_int line = Some i \<and> \<not> (0 \<le> i \<and> i < int (length options)) \<longrightarrow>
            list_and_select E options w =
              list_and_select E options (print (range_message (map fst options)) (after_prompt (map fst options) w)))
       \<and> (lower line \<noteq> ''q'' \<and> py_int line = None \<longrightarrow>
            list_and_select E options w =
              list_and_select E options (print invalid_message (after_prompt (map fst options) w)))"
proof -
  have "map_of options (map fst options ! nat i) = Some (snd (options ! nat i))"
    if "0 \<le> i" "i < int (length options)"
    using that map_of_nth_distinct [OF assms(1), of "nat i"] by simp
  then show ?thesis
    by (auto simp add: list_and_select_def loop_step [OF assms(2)])
qed

text \<open>
  The run of the specification: a menu of three options and the lines \<open>abc\<close>, \<open>7\<close> and
  \<open>1\<close>. The first line is answered by the message about invalid input, the second by
  the message about the range, and the third returns the option at index 1. A line \<open>Q\<close>
  ends the process.
\<close>

theorem list_and_select_step_witness:
  "list_and_select (typing_env [''abc'', ''7'', ''1'']) menu3 w0 =
     Some (Return (''/b'', ''b'')
       (after_prompt [''a'', ''b'', ''c'']
         (print (range_message [''a'', ''b'', ''c''])
           (after_prompt [''a'', ''b'', ''c'']
             (print invalid_message (after_prompt [''a'', ''b'', ''c''] w0))))))
   \<and> list_and_select (typing_env [''Q'']) menu3 w0 = Some (Raise SystemExit (after_prompt [''a'', ''b'', ''c''] w0))"
proof -
  let ?E = "typing_env [''abc'', ''7'', ''1'']"
  let ?ks = "[''a'', ''b'', ''c'']"
  let ?wa = "print invalid_message (after_prompt ?ks w0)"
  let ?wb = "print (range_message ?ks) (after_prompt ?ks ?wa)"
  have d: "distinct (map fst menu3)" and ks: "map fst menu3 = ?ks" and len: "length menu3 = 3"
    by (simp_all add: menu3_def)
  have s1: "list_and_select ?E menu3 w0 = list_and_select ?E menu3 ?wa"
    using list_and_select_step [OF d, of ?E w0 "''abc''" 0]
    by (simp add: ks typing_env_def lines_of_def w0_def run_int)
  have s2: "list_and_select ?E menu3 ?wa = list_and_select ?E menu3 ?wb"
    using list_and_select_step [OF d, of ?E ?wa "''7''" 7]
    by (simp add: ks len typing_env_def lines_of_def print_stdin_pos after_prompt_stdin_pos w0_def run_int)
  have s3: "list_and_select ?E menu3 ?wb = Some (Return (''/b'', ''b'') (after_prompt ?ks ?wb))"
    using list_and_select_step [OF d, of ?E ?wb "''1''" 1]
    by (simp add: ks len typing_env_def lines_of_def print_stdin_pos after_prompt_stdin_pos w0_def run_int)
       (simp add: menu3_def)
  have s4: "list_and_select (typing_env [''Q'']) menu3 w0 = Some (Raise SystemExit (after_prompt ?ks w0))"
    using list_and_select_step [OF d, of "typing_env [''Q'']" w0 "''Q''" 0]
    by (simp add: ks typing_env_def lines_of_def w0_def run_int)
  show ?thesis using s1 s2 s3 s4 by simp
qed

lemma no_index: "(0 \<le> (i::int) \<and> i < 0) = False"
  by arith

lemma loop_empty_ends:
  assumes "list_and_select_loop E options keys w = Some r"
  shows "keys = [] \<longrightarrow> (\<exists>w'. r = Raise SystemExit w' \<or> r = Raise EOFError w')"
  using assms
proof (induction rule: list_and_select_loop.raw_induct [rotated 1, consumes 1])
  case (1 las E options keys w r)
  show ?case
  proof
    assume k: "keys = []"
    show "\<exists>w'. r = Raise SystemExit w' \<or> r = Raise EOFError w'"
    proof (cases "stdin E (stdin_pos w)")
      case None
      with 1(2) show ?thesis by (auto simp add: input_eof)
    next
      case (Some l)
      with 1(2) k 1(1) show ?thesis
        by (auto simp add: input_line no_index split: if_splits option.splits)
    qed
  qed
qed

lemma loop_empty_forever:
  assumes "list_and_select_loop E options keys w = Some r"
  shows "keys = [] \<longrightarrow> (\<exists>n\<ge>stdin_pos w. stdin E n = None \<or> (\<exists>l. stdin E n = Some l \<and> lower l = ''q''))"
  using assms
proof (induction rule: list_and_select_loop.raw_induct [rotated 1, consumes 1])
  case (1 las E options keys w r)
  show ?case
  proof
    assume k: "keys = []"
    show "\<exists>n\<ge>stdin_pos w. stdin E n = None \<or> (\<exists>l. stdin E n = Some l \<and> lower l = ''q'')"
    proof (cases "stdin E (stdin_pos w)")
      case None
      then show ?thesis by auto
    next
      case (Some l)
      show ?thesis
      proof (cases "lower l = ''q''")
        case True
        with Some show ?thesis by auto
      next
        case False
        with 1(2) Some k obtain w2 where "las E options keys w2 = Some r" "stdin_pos w2 = Suc (stdin_pos w)"
          by (auto simp add: input_line after_prompt_stdin_pos print_stdin_pos no_index split: option.splits)
        with 1(1) k obtain n where "n \<ge> Suc (stdin_pos w)"
           "stdin E n = None \<or> (\<exists>l. stdin E n = Some l \<and> lower l = ''q'')"
          by metis
        then show ?thesis by (metis Suc_leD)
      qed
    qed
  qed
qed

lemma loop_empty_quit:
  "(\<forall>j<k. \<exists>l. stdin E (stdin_pos w + j) = Some l \<and> lower l \<noteq> ''q'') \<Longrightarrow>
   stdin E (stdin_pos w + k) = Some q \<Longrightarrow> lower q = ''q'' \<Longrightarrow>
   \<exists>w'. list_and_select_loop E options [] w = Some (Raise SystemExit w') \<and> stdin_pos w' = Suc (stdin_pos w + k)"
proof (induction k arbitrary: w)
  case 0
  then show ?case by (simp add: loop_step after_prompt_stdin_pos)
next
  case (Suc k)
  from Suc.prems(1) obtain l where l: "stdin E (stdin_pos w) = Some l" "lower l \<noteq> ''q''"
    by (metis add.right_neutral zero_less_Suc)
  define w2 where "w2 = (case py_int l of Some i \<Rightarrow> print (range_message []) (after_prompt [] w)
                          | None \<Rightarrow> print invalid_message (after_prompt [] w))"
  have step: "list_and_select_loop E options [] w = list_and_select_loop E options [] w2"
    using l by (simp add: loop_step [OF l(1)] w2_def no_index split: option.splits)
  have pos: "stdin_pos w2 = Suc (stdin_pos w)"
    by (simp add: w2_def after_prompt_stdin_pos print_stdin_pos split: option.splits)
  have "\<forall>j<k. \<exists>l. stdin E (stdin_pos w2 + j) = Some l \<and> lower l \<noteq> ''q''"
    using Suc.prems(1) pos by (metis Suc_less_eq add_Suc_shift)
  moreover have "stdin E (stdin_pos w2 + k) = Some q"
    using Suc.prems(2) pos by simp
  ultimately obtain w' where "list_and_select_loop E options [] w2 = Some (Raise SystemExit w')"
      "stdin_pos w' = Suc (stdin_pos w2 + k)"
    using Suc.IH [of w2] Suc.prems(3) by blast
  with step pos show ?case by simp
qed

lemma lower_0: "lower ''0'' \<noteq> ''q''"
  by (simp add: lower_def lower_char_def)

text \<open>
  Claim C10, as the code has it. On an empty mapping \<open>list_and_select\<close> never returns a
  value: whenever it ends, it ends by \<open>SystemExit\<close> or by the end of the input, on which
  \<open>input\<close> raises \<open>EOFError\<close>. When every prompt is answered by a line and no line is
  the quit token, the loop never ends (the result is \<open>None\<close>). When the line number \<open>k\<close>
  is the first quit token, the loop ends there, by \<open>SystemExit\<close>.
\<close>

theorem list_and_select_empty:
  "(\<forall>r. list_and_select E ([] :: (string \<times> 'v) list) w = Some r \<longrightarrow> (\<exists>w'. r = Raise SystemExit w' \<or> r = Raise EOFError w'))
   \<and> ((\<forall>n\<ge>stdin_pos w. \<exists>l. stdin E n = Some l \<and> lower l \<noteq> ''q'') \<longrightarrow> list_and_select E ([] :: (string \<times> 'v) list) w = None)
   \<and> ((\<forall>j<k. \<exists>l. stdin E (stdin_pos w + j) = Some l \<and> lower l \<noteq> ''q'')
        \<and> stdin E (stdin_pos w + k) = Some q \<and> lower q = ''q''
       \<longrightarrow> (\<exists>w'. list_and_select E ([] :: (string \<times> 'v) list) w = Some (Raise SystemExit w') \<and> stdin_pos w' = Suc (stdin_pos w + k)))"
proof -
  have a: "\<forall>r. list_and_select E ([] :: (string \<times> 'v) list) w = Some r \<longrightarrow> (\<exists>w'. r = Raise SystemExit w' \<or> r = Raise EOFError w')"
    using loop_empty_ends [of E "[] :: (string \<times> 'v) list" "[]" w] by (auto simp add: list_and_select_def)
  have b: "(\<forall>n\<ge>stdin_pos w. \<exists>l. stdin E n = Some l \<and> lower l \<noteq> ''q'') \<longrightarrow> list_and_select E ([] :: (string \<times> 'v) list) w = None"
  proof
    assume h: "\<forall>n\<ge>stdin_pos w. \<exists>l. stdin E n = Some l \<and> lower l \<noteq> ''q''"
    show "list_and_select E ([] :: (string \<times> 'v) list) w = None"
    proof (cases "list_and_select E ([] :: (string \<times> 'v) list) w")
      case None
      then show ?thesis .
    next
      case (Some r)
      then have "\<exists>n\<ge>stdin_pos w. stdin E n = None \<or> (\<exists>l. stdin E n = Some l \<and> lower l = ''q'')"
        using loop_empty_forever [of E "[] :: (string \<times> 'v) list" "[]" w r] by (simp add: list_and_select_def)
      with h show ?thesis by (metis option.distinct(1) option.inject)
    qed
  qed
  have c: "(\<forall>j<k. \<exists>l. stdin E (stdin_pos w + j) = Some l \<and> lower l \<noteq> ''q'')
        \<and> stdin E (stdin_pos w + k) = Some q \<and> lower q = ''q''
       \<longrightarrow> (\<exists>w'. list_and_select E ([] :: (string \<times> 'v) list) w = Some (Raise SystemExit w') \<and> stdin_pos w' = Suc (stdin_pos w + k))"
    using loop_empty_quit [of k E w q "[] :: (string \<times> 'v) list"] by (simp add: list_and_select_def)
  show ?thesis using a b c by blast
qed

theorem list_and_select_empty_witness:
  "list_and_select (repeating_env ''0'') ([] :: (string \<times> string) list) w0 = None
   \<and> (\<exists>w'. list_and_select (typing_env [''0'', ''Q'']) ([] :: (string \<times> string) list) w0 = Some (Raise SystemExit w')
         \<and> stdin_pos w' = 2)"
proof -
  have a: "list_and_select (repeating_env ''0'') ([] :: (string \<times> string) list) w0 = None"
    using list_and_select_empty [where ?'v = string, of "repeating_env ''0''" w0 0 "''q''"] lower_0
    by (auto simp add: repeating_env_def)
  have "\<forall>j<1. \<exists>l. stdin (typing_env [''0'', ''Q'']) (stdin_pos w0 + j) = Some l \<and> lower l \<noteq> ''q''"
    using lower_0 by (simp add: typing_env_def lines_of_def w0_def)
  moreover have "stdin (typing_env [''0'', ''Q'']) (stdin_pos w0 + 1) = Some ''Q''"
    by (simp add: typing_env_def lines_of_def w0_def)
  moreover have "lower ''Q'' = ''q''"
    by (simp add: lower_def lower_char_def)
  ultimately have b: "\<exists>w'. list_and_select (typing_env [''0'', ''Q'']) ([] :: (string \<times> string) list) w0 = Some (Raise SystemExit w') \<and> stdin_pos w' = 2"
    using list_and_select_empty [where ?'v = string, of "typing_env [''0'', ''Q'']" w0 1 "''Q''"]
    by (simp add: w0_def numeral_2_eq_2)
  show ?thesis using a b by blast
qed

text \<open>
  Claim C10 as the specification states it fails on an input that ends: with the single
  line \<open>0\<close>, which is not the quit token, the loop does not run forever. The line is
  answered by the message about the range, and the next prompt finds the end of the
  input: the run ends by \<open>EOFError\<close>, not by the quit token.
\<close>

theorem list_and_select_empty_counterexample:
  "list_and_select (typing_env [''0'']) ([] :: (string \<times> string) list) w0 = Some (Raise EOFError w_input_ended)
   \<and> lower ''0'' \<noteq> ''q''"
proof -
  let ?E = "typing_env [''0'']"
  let ?wa = "print (range_message []) (after_prompt [] w0)"
  have first: "stdin ?E (stdin_pos w0) = Some ''0''"
    by (simp add: typing_env_def lines_of_def w0_def)
  have step: "list_and_select_loop ?E ([] :: (string \<times> string) list) [] w0
      = list_and_select_loop ?E [] [] ?wa"
    by (simp add: loop_step [OF first] run_int)
  have ended: "stdin ?E (stdin_pos ?wa) = None"
    by (simp add: typing_env_def lines_of_def print_stdin_pos after_prompt_stdin_pos w0_def)
  have world: "print select_prompt (show_menu [] ?wa) = w_input_ended"
    by (simp add: w_input_ended_def after_prompt_def show_menu_def print_def w0_def List.enumerate_eq_zip)
  have "list_and_select ?E ([] :: (string \<times> string) list) w0 = Some (Raise EOFError w_input_ended)"
    by (simp add: list_and_select_def step loop_eof [OF ended] world)
  then show ?thesis using lower_0 by simp
qed

subsection \<open>Downloading a playlist\<close>

lemma for_each_append:
  "for_each body (xs @ ys) w =
     (case for_each body xs w of Raise e w2 \<Rightarrow> Raise e w2 | Return u w2 \<Rightarrow> for_each body ys w2)"
  by (induction xs arbitrary: w) (auto split: result.splits)

lemma enumerate_take_Suc:
  "k < length songs \<Longrightarrow>
   List.enumerate (Suc 0) (take (Suc k) songs) = List.enumerate (Suc 0) (take k songs) @ [(Suc k, songs ! k)]"
  by (simp add: take_Suc_conv_app_nth enumerate_append_eq)

lemma enumerate_split:
  "k \<le> length songs \<Longrightarrow>
   List.enumerate (Suc 0) songs = List.enumerate (Suc 0) (take k songs) @ List.enumerate (Suc k) (drop k songs)"
  using enumerate_append_eq [of "Suc 0" "take k songs" "drop k songs"] by simp

lemma download_playlist_take_Suc:
  assumes "k < length songs"
  shows "download_playlist E (take (Suc k) songs) album w =
     (case download_playlist E (take k songs) album w of
        Raise e w2 \<Rightarrow> Raise e w2
      | Return u w2 \<Rightarrow> download_song E (path_join ''downloads'' album) album (Suc k, songs ! k) w2)"
  by (simp add: download_playlist_def Let_def enumerate_take_Suc [OF assms] for_each_append
      split: result.splits)

lemma download_playlist_split:
  assumes "k \<le> length songs"
  shows "download_playlist E songs album w =
     (case download_playlist E (take k songs) album w of
        Raise e w2 \<Rightarrow> Raise e w2
      | Return u w2 \<Rightarrow>
          for_each (download_song E (path_join ''downloads'' album) album)
            (List.enumerate (Suc k) (drop k songs)) w2)"
proof -
  have "for_each body (List.enumerate (Suc 0) songs) v =
      (case for_each body (List.enumerate (Suc 0) (take k songs)) v of
         Raise e w2 \<Rightarrow> Raise e w2
       | Return u w2 \<Rightarrow> for_each body (List.enumerate (Suc k) (drop k songs)) w2)" for body v
    using for_each_append [of body "List.enumerate (Suc 0) (take k songs)" "List.enumerate (Suc k) (drop k songs)" v]
    by (simp only: enumerate_split [OF assms, symmetric])
  then show ?thesis
    by (simp add: download_playlist_def Let_def split: result.splits)
qed

lemma add_metadata_unfold:
  assumes "add_metadata E file_path album song n w = Return u w'"
  shows "\<exists>f audio name artist.
           open_tags E file_path w = Inr (f, audio)
         \<and> getitem song ''name'' = Inr name \<and> getitem song ''artist'' = Inr artist
         \<and> w' = w\<lparr>files := AList.update file_path
               (f\<lparr>saved_tags := Some (AList.update ''tracknumber'' (str_nat n)
                  (AList.update ''artist'' artist
                    (AList.update ''album'' album (AList.update ''title'' name audio))))\<rparr>) (files w)\<rparr>"
proof (cases "open_tags E file_path w")
  case (Inl e)
  with assms show ?thesis by (simp add: add_metadata_def)
next
  case (Inr fa)
  obtain f audio where fa: "fa = (f, audio)" by (cases fa)
  show ?thesis
  proof (cases "getitem song ''name''")
    case (Inl e)
    with assms Inr fa show ?thesis by (simp add: add_metadata_def)
  next
    case name: (Inr name)
    show ?thesis
    proof (cases "getitem song ''artist''")
      case (Inl e)
      with assms Inr fa name show ?thesis by (simp add: add_metadata_def)
    next
      case artist: (Inr artist)
      with assms Inr fa name show ?thesis by (simp add: add_metadata_def Let_def)
    qed
  qed
qed

lemma add_metadata_tags:
  assumes "add_metadata E file_path album song n w = Return u w'"
  shows "tag_of w' file_path ''tracknumber'' = Some (str_nat n)
       \<and> tag_of w' file_path ''album'' = Some album
       \<and> Inr (the (tag_of w' file_path ''title'')) = getitem song ''name''
       \<and> Inr (the (tag_of w' file_path ''artist'')) = getitem song ''artist''"
proof -
  from add_metadata_unfold [OF assms] obtain f audio name artist where
    g: "getitem song ''name'' = Inr name" "getitem song ''artist'' = Inr artist"
    and w': "w' = w\<lparr>files := AList.update file_path
               (f\<lparr>saved_tags := Some (AList.update ''tracknumber'' (str_nat n)
                  (AList.update ''artist'' artist
                    (AList.update ''album'' album (AList.update ''title'' name audio))))\<rparr>) (files w)\<rparr>"
    by blast
  show ?thesis
    unfolding w' g by (simp add: tag_of_def update_conv')
qed

text \<open>
  Claim C5. Take the track at position \<open>k + 1\<close> of a playlist (\<open>songs ! k\<close>), and suppose
  the tracks before it have been processed, whatever their downloads did, without an
  exception. Then the run up to and including this track is: the download of this track,
  followed by \<open>add_metadata\<close> with the track number \<open>k + 1\<close> when the download succeeded,
  and by nothing at all when it failed. The tag written then is the text of \<open>k + 1\<close>.
  And the run on the whole playlist is this run followed by the loop on the remaining
  tracks, numbered from \<open>k + 2\<close>: a failed download does not end the loop.
\<close>

theorem download_playlist_track_number:
  assumes "k < length songs"
    and "download_playlist E (take k songs) album w = Return () wk"
    and "getitem (songs ! k) ''name'' = Inr name"
    and "getitem (songs ! k) ''url'' = Inr url"
    and "download_mp3 E url (song_path album (songs ! k)) wk = Return ok wd"
  shows "download_playlist E (take (Suc k) songs) album w =
           (if ok then add_metadata E (song_path album (songs ! k)) album (songs ! k) (Suc k) wd
            else Return () wd)
       \<and> (\<forall>w'. ok \<and> add_metadata E (song_path album (songs ! k)) album (songs ! k) (Suc k) wd = Return () w'
            \<longrightarrow> tag_of w' (song_path album (songs ! k)) ''tracknumber'' = Some (str_nat (Suc k)))
       \<and> download_playlist E songs album w =
           (case download_playlist E (take (Suc k) songs) album w of
              Raise e w2 \<Rightarrow> Raise e w2
            | Return u w2 \<Rightarrow>
                for_each (download_song E (path_join ''downloads'' album) album)
                  (List.enumerate (Suc (Suc k)) (drop (Suc k) songs)) w2)"
proof -
  have p: "song_path album (songs ! k) = path_join (path_join ''downloads'' album) (name @ ''.mp3'')"
    using assms(3) by (simp add: song_path_def)
  have a: "download_playlist E (take (Suc k) songs) album w =
           (if ok then add_metadata E (song_path album (songs ! k)) album (songs ! k) (Suc k) wd
            else Return () wd)"
    using assms(2-5)
    by (simp add: download_playlist_take_Suc [OF assms(1)] download_song_def Let_def p)
  have b: "\<forall>w'. ok \<and> add_metadata E (song_path album (songs ! k)) album (songs ! k) (Suc k) wd = Return () w'
            \<longrightarrow> tag_of w' (song_path album (songs ! k)) ''tracknumber'' = Some (str_nat (Suc k))"
    using add_metadata_tags by blast
  have c: "download_playlist E songs album w =
           (case download_playlist E (take (Suc k) songs) album w of
              Raise e w2 \<Rightarrow> Raise e w2
            | Return u w2 \<Rightarrow>
                for_each (download_song E (path_join ''downloads'' album) album)
                  (List.enumerate (Suc (Suc k)) (drop (Suc k) songs)) w2)"
    using download_playlist_split [of "Suc k" songs E album w] assms(1) by simp
  show ?thesis using a b c by blast
qed

lemmas run_download = download_playlist_def download_song_def download_mp3_unfold add_metadata_def
  open_tags_def file_tags_def makedirs_def getitem_def path_join_def startswith_def download_request_def
  base_url_def http_error_status_def audio_response_def quiet_env_def print_def write_chunks_def
  file_write_def w0_def Let_def song_path_def download_error_def digit_char_def

lemma run_first: "download_playlist flaky_env [song_one] ''Album'' w0 = Return () w_first_failed"
  by (simp add: run_download flaky_env_def song_one_def w_first_failed_def List.enumerate_eq_zip)

lemma run_second:
  "download_mp3 flaky_env ''/s2.mp3'' ''downloads/Album/Two.mp3'' w_first_failed = Return True w_second_done"
  by (simp add: run_download flaky_env_def w_first_failed_def w_second_done_def)

lemma run_tag:
  "add_metadata flaky_env ''downloads/Album/Two.mp3'' ''Album'' song_two (Suc (Suc 0)) w_second_done
     = Return () w_second_tagged"
  by (simp add: run_download flaky_env_def song_two_def w_first_failed_def w_second_done_def w_second_tagged_def)

lemma path_two: "song_path ''Album'' song_two = ''downloads/Album/Two.mp3''"
  by (simp add: song_path_def song_two_def getitem_def path_join_def startswith_def)

text \<open>
  A playlist of two tracks: the download of the first is refused, the second succeeds.
  The second is tagged with the number 2 and the first has no tag.
\<close>

theorem download_playlist_track_number_witness:
  "download_playlist flaky_env [song_one, song_two] ''Album'' w0 = Return () w_second_tagged
   \<and> tag_of w_second_tagged ''downloads/Album/Two.mp3'' ''tracknumber'' = Some ''2''
   \<and> tag_of w_second_tagged ''downloads/Album/One.mp3'' ''tracknumber'' = None"
proof -
  have k: "Suc 0 < length [song_one, song_two]" by simp
  have first: "download_playlist flaky_env (take (Suc 0) [song_one, song_two]) ''Album'' w0 = Return () w_first_failed"
    using run_first by simp
  have n: "getitem ([song_one, song_two] ! Suc 0) ''name'' = Inr ''Two''"
    and u: "getitem ([song_one, song_two] ! Suc 0) ''url'' = Inr ''/s2.mp3''"
    by (simp_all add: song_two_def getitem_def)
  have d: "download_mp3 flaky_env ''/s2.mp3'' (song_path ''Album'' ([song_one, song_two] ! Suc 0)) w_first_failed
      = Return True w_second_done"
    using run_second by (simp add: path_two)
  from download_playlist_track_number [OF k first n u d]
  have a: "download_playlist flaky_env [song_one, song_two] ''Album'' w0 = Return () w_second_tagged"
    and b: "tag_of w_second_tagged ''downloads/Album/Two.mp3'' ''tracknumber'' = Some (str_nat (Suc (Suc 0)))"
    by (simp_all add: path_two run_tag)
  have c: "tag_of w_second_tagged ''downloads/Album/One.mp3'' ''tracknumber'' = None"
    by (simp add: tag_of_def w_second_tagged_def w_second_done_def w_first_failed_def)
  show ?thesis using a b c by (simp add: digit_char_def)
qed

subsection \<open>Downloading one track\<close>

lemma call_add_metadata_missing:
  "call_add_metadata E [AStr file_path, ASong song_data] [(''track_number'', ANum n)] w
     = Raise (MissingArguments ''add_metadata'' [''song_data'']) w"
  by (simp add: call_add_metadata_def add_metadata_params_def Let_def)

lemma pick_select:
  "list_and_select pick_env [(''One'', ''/s1.mp3'')] w0 = Some (Return (''/s1.mp3'', ''One'') (after_prompt [''One''] w0))"
proof -
  have "stdin pick_env (stdin_pos w0) = Some ''0''"
    by (simp add: pick_env_def lines_of_def w0_def)
  from loop_step [OF this, of "[(''One'', ''/s1.mp3'')]" "[''One'']"] show ?thesis
    by (simp add: list_and_select_def run_int)
qed

lemma pick_world:
  "after_prompt [''One''] w0 =
     \<lparr>stdin_pos = 1, stdout = [''0. One'', select_prompt], http_log = [], files = [], write_log = [],
        dirs = [], commands = []\<rparr>"
  by (simp add: after_prompt_def show_menu_def menu_line_def List.enumerate_eq_zip print_def w0_def digit_char_def)

text \<open>
  Claim C1 does not hold on the code. In the single-track branch the call of
  \<open>add_metadata\<close> passes two positional arguments and \<open>track_number\<close>, so the parameter
  \<open>song_data\<close> has no value and the call raises before any tag is set (the bulk branch
  passes the album label as well). Here a playlist of one track, the user types \<open>0\<close>, the
  download succeeds: the run ends in that error and the file carries no tag.
\<close>

theorem download_one_fails_to_tag:
  "download_one pick_env [song_one] ''Album'' w0
     = Some (Raise (MissingArguments ''add_metadata'' [''song_data'']) w_one_downloaded)
   \<and> tag_of w_one_downloaded ''downloads/Album/One.mp3'' ''title'' = None"
proof -
  have urls: "song_urls_dict [song_one] [] = Inr [(''One'', ''/s1.mp3'')]"
    by (simp add: song_one_def getitem_def)
  have dl: "download_mp3 pick_env ''/s1.mp3'' ''downloads/Album/One.mp3''
        (\<lparr>stdin_pos = Suc 0, stdout = [''0. One'', select_prompt], http_log = [], files = [], write_log = [],
           dirs = [''downloads/Album''], commands = []\<rparr>) = Return True w_one_downloaded"
    by (simp add: download_mp3_unfold pick_env_def quiet_env_def audio_response_def http_error_status_def
        download_request_def startswith_def base_url_def write_chunks_def file_write_def w_one_downloaded_def)
  have mk: "makedirs_error pick_env p = None" for p
    by (simp add: pick_env_def quiet_env_def)
  have nx: "getitem song_one ''name'' = Inr ''One''"
    by (simp add: song_one_def getitem_def)
  have a: "download_one pick_env [song_one] ''Album'' w0
     = Some (Raise (MissingArguments ''add_metadata'' [''song_data'']) w_one_downloaded)"
    unfolding download_one_def urls
    by (simp add: pick_select pick_world makedirs_def mk path_join_def startswith_def
        Let_def dl nx call_add_metadata_missing)
  have b: "tag_of w_one_downloaded ''downloads/Album/One.mp3'' ''title'' = None"
    by (simp add: tag_of_def w_one_downloaded_def)
  show ?thesis using a b by simp
qed

end
